theory Spec2Isabelle
  imports Main "HOL-Library.Word"
begin

section \<open>Go strings\<close>

text \<open>
  A Go string is a sequence of bytes; it is modelled as a \<open>char list\<close> (an Isabelle
  \<open>char\<close> is one byte). The helpers below model the functions of package \<open>strings\<close>
  that the authentication code calls, on ASCII input: \<open>strings.Fields\<close> and
  \<open>strings.ToLower\<close> decode UTF-8 and treat some code points beyond ASCII as white
  space or as upper-case letters, which a byte-wise model does not; the theorems about
  them are stated for ASCII strings.
\<close>

definition ascii :: "string \<Rightarrow> bool" where
  "ascii s = list_all (\<lambda>c. (of_char c :: nat) < 128) s"

text \<open>The ASCII white space of \<open>strings.Fields\<close>: tab, newline, vertical tab, form feed,
  carriage return and space.\<close>

definition isSpace :: "char \<Rightarrow> bool" where
  "isSpace c = (c = CHR 0x09 \<or> c = CHR 0x0A \<or> c = CHR 0x0B \<or> c = CHR 0x0C
                \<or> c = CHR 0x0D \<or> c = CHR 0x20)"

text \<open>\<open>strings.Fields\<close>: the maximal runs of non-space characters, in order.\<close>

function Fields :: "string \<Rightarrow> string list" where
  "Fields [] = []"
| "Fields (c # cs) =
     (if isSpace c then Fields cs
      else takeWhile (\<lambda>x. \<not> isSpace x) (c # cs) # Fields (dropWhile (\<lambda>x. \<not> isSpace x) cs))"
  by pat_completeness auto
termination
  by (relation "measure length") (auto simp: less_Suc_eq_le length_dropWhile_le)

definition lower_char :: "char \<Rightarrow> char" where
  "lower_char c =
     (if (65::nat) \<le> of_char c \<and> (of_char c :: nat) \<le> 90 then char_of ((of_char c :: nat) + 32) else c)"

definition ToLower :: "string \<Rightarrow> string" where
  "ToLower s = map lower_char s"

text \<open>\<open>strings.Contains s sub\<close> and \<open>strings.Count s sub\<close> for a pattern \<open>sub\<close> of one
  character, which is how the code calls them.\<close>

definition ContainsChar :: "string \<Rightarrow> char \<Rightarrow> bool" where
  "ContainsChar s c = (c \<in> set s)"

definition CountChar :: "string \<Rightarrow> char \<Rightarrow> nat" where
  "CountChar s c = count_list s c"

section \<open>Token extraction (jwt.go, ExtractTokenFromHeader)\<close>

definition ExtractTokenFromHeader :: "string \<Rightarrow> string" where
  "ExtractTokenFromHeader authHeader =
     (let parts = Fields authHeader in
      if length parts = 2 \<and> ToLower (parts ! 0) = ''bearer'' then parts ! 1
      else if \<not> ContainsChar authHeader (CHR '' '') \<and> CountChar authHeader (CHR ''.'') = 2
           then authHeader
      else '''')"

text \<open>The header shape \<open>Bearer <token>\<close> as a predicate: optional white space, a scheme
  that lower-cases to \<open>bearer\<close>, white space, a token without white space, optional white
  space.\<close>

definition bearer_form :: "string \<Rightarrow> string \<Rightarrow> bool" where
  "bearer_form h tok \<longleftrightarrow>
     (\<exists>ws0 scheme ws1 ws2.
        h = ws0 @ scheme @ ws1 @ tok @ ws2 \<and>
        list_all isSpace ws0 \<and> list_all isSpace ws1 \<and> list_all isSpace ws2 \<and> ws1 \<noteq> [] \<and>
        ToLower scheme = ''bearer'' \<and> tok \<noteq> [] \<and> list_all (\<lambda>c. \<not> isSpace c) tok)"

section \<open>Times, identifiers and errors\<close>

text \<open>
  A \<open>time.Time\<close> is the number of nanoseconds since the Unix epoch, a \<open>time.Duration\<close> a
  number of nanoseconds. A \<open>uuid.UUID\<close> is modelled by its canonical text, so that
  \<open>String()\<close> is the identity. A \<open>[]byte\<close> is a list of 8-bit words.
\<close>

type_synonym time = int
type_synonym duration = int
type_synonym uuid = string
type_synonym bytes = "8 word list"

definition second :: duration where
  "second = 1000000000"

text \<open>The zero \<open>time.Time\<close> is January 1 of year 1, 62135596800 seconds before the epoch.\<close>

definition zeroTime :: time where
  "zeroTime = - 62135596800 * second"

definition uuid_Nil :: uuid where
  "uuid_Nil = ''00000000-0000-0000-0000-000000000000''"

text \<open>\<open>[]byte(s)\<close> for a string \<open>s\<close>.\<close>

definition bytes_of_string :: "string \<Rightarrow> bytes" where
  "bytes_of_string s = map (\<lambda>c. of_nat (of_char c)) s"

text \<open>
  Error values. \<open>Errorf m\<close> is \<open>fmt.Errorf(m)\<close> or \<open>errors.New(m)\<close>, \<open>Wrapf m e\<close> is
  \<open>fmt.Errorf(m + ": %w", e)\<close>; the other constructors are the sentinel errors of the
  packages involved and the panics of the run time.
\<close>

datatype err =
    Errorf string
  | Wrapf string err
  | ErrRecordNotFound
  | ErrDuplicatedKey
  | ErrInvalidKeyType
  | ErrTokenMalformed
  | ErrTokenUnverifiable err
  | ErrTokenSignatureInvalid
  | ErrTokenExpired
  | ErrTokenNotValidYet
  | ErrInvalidHash
  | ErrIncompatibleVersion
  | ScanError string
  | CorruptInputError
  | ErrRandRead
  | ErrUserNotFound
  | ErrEmailExists
  | ErrAuthenticationFailed
  | Panic string

section \<open>Signed tokens (jwt.go)\<close>

datatype SigningMethod = HS256 | HS384 | HS512 | RS256 | RS384 | RS512 | OtherAlg string

definition TokenTypeAccess :: string where
  "TokenTypeAccess = ''access''"

definition TokenTypeRefresh :: string where
  "TokenTypeRefresh = ''refresh''"

text \<open>
  \<open>Claims\<close> with the embedded \<open>jwt.RegisteredClaims\<close> (its fields that the code sets);
  the three dates are pointers in Go and may be absent in a token that is presented.
  \<open>jwt.NewNumericDate\<close> truncates a time to the second.
\<close>

record Claims =
  c_UserID :: uuid
  c_Email :: string
  c_Roles :: "string list"
  c_Type :: string
  c_ID :: string
  c_Subject :: string
  c_IssuedAt :: "time option"
  c_ExpiresAt :: "time option"
  c_NotBefore :: "time option"
  c_Issuer :: string

definition NewNumericDate :: "time \<Rightarrow> time option" where
  "NewNumericDate t = Some (t - t mod second)"

text \<open>
  A token string is modelled by what it decodes to: the signing method named in its
  header, its claims and its signature, or nothing when the string is not a compact
  serialisation of a token with a known method. The signature scheme of the jwt library
  is a parameter: \<open>Sign\<close> is \<open>SigningMethod.Sign\<close> on the header and claims with a
  \<open>[]byte\<close> key, \<open>Verify\<close> tells whether \<open>SigningMethod.Verify\<close> returns no error.
\<close>

type_synonym signature = bytes

datatype token_string = Unparsable string | Compact SigningMethod Claims signature

record sig_scheme =
  Sign :: "SigningMethod \<Rightarrow> bytes \<Rightarrow> SigningMethod \<times> Claims \<Rightarrow> err + signature"
  Verify :: "SigningMethod \<Rightarrow> bytes \<Rightarrow> SigningMethod \<times> Claims \<Rightarrow> signature \<Rightarrow> bool"

fun claims_of :: "token_string \<Rightarrow> Claims option" where
  "claims_of (Unparsable s) = None"
| "claims_of (Compact m c s) = Some c"

record TokenPair =
  tp_AccessToken :: token_string
  tp_RefreshToken :: token_string
  tp_ExpiresIn :: int
  tp_TokenType :: string

record JWTService =
  accessSecret :: bytes
  refreshSecret :: bytes
  accessTokenTTL :: duration
  refreshTokenTTL :: duration
  signingMethod :: SigningMethod

definition NewJWTService :: "string \<Rightarrow> string \<Rightarrow> duration \<Rightarrow> duration \<Rightarrow> string \<Rightarrow> JWTService" where
  "NewJWTService accessSecret' refreshSecret' accessTTL refreshTTL method =
     \<lparr>accessSecret = bytes_of_string accessSecret',
      refreshSecret = bytes_of_string refreshSecret',
      accessTokenTTL = accessTTL,
      refreshTokenTTL = refreshTTL,
      signingMethod =
        (if method = ''HS256'' then HS256
         else if method = ''HS384'' then HS384
         else if method = ''HS512'' then HS512
         else if method = ''RS256'' then RS256
         else if method = ''RS384'' then RS384
         else if method = ''RS512'' then RS512
         else HS256)\<rparr>"

text \<open>\<open>int64(d.Seconds())\<close>: the whole seconds of a duration, rounded towards zero.\<close>

definition Seconds_int64 :: "duration \<Rightarrow> int" where
  "Seconds_int64 d = sgn d * (\<bar>d\<bar> div second)"

text \<open>
  \<open>GenerateTokenPair\<close>. The clock reading \<open>now\<close> and the two identifiers that
  \<open>uuid.New()\<close> draws are arguments.
\<close>

definition GenerateTokenPair ::
  "sig_scheme \<Rightarrow> JWTService \<Rightarrow> time \<Rightarrow> string \<Rightarrow> string \<Rightarrow> uuid \<Rightarrow> string \<Rightarrow> string list
     \<Rightarrow> err + TokenPair" where
  "GenerateTokenPair cr j now accessTokenID refreshTokenID userID email roles =
     (let accessClaims =
            \<lparr>c_UserID = userID, c_Email = email, c_Roles = roles, c_Type = TokenTypeAccess,
             c_ID = accessTokenID, c_Subject = userID,
             c_IssuedAt = NewNumericDate now,
             c_ExpiresAt = NewNumericDate (now + accessTokenTTL j),
             c_NotBefore = NewNumericDate now,
             c_Issuer = ''music-app-backend''\<rparr>
      in case Sign cr (signingMethod j) (accessSecret j) (signingMethod j, accessClaims) of
           Inl e \<Rightarrow> Inl (Wrapf ''failed to sign access token'' e)
         | Inr accessSig \<Rightarrow>
             (let refreshClaims =
                    \<lparr>c_UserID = userID, c_Email = email, c_Roles = roles, c_Type = TokenTypeRefresh,
                     c_ID = refreshTokenID, c_Subject = userID,
                     c_IssuedAt = NewNumericDate now,
                     c_ExpiresAt = NewNumericDate (now + refreshTokenTTL j),
                     c_NotBefore = NewNumericDate now,
                     c_Issuer = ''music-app-backend''\<rparr>
              in case Sign cr (signingMethod j) (refreshSecret j) (signingMethod j, refreshClaims) of
                   Inl e \<Rightarrow> Inl (Wrapf ''failed to sign refresh token'' e)
                 | Inr refreshSig \<Rightarrow>
                     Inr \<lparr>tp_AccessToken = Compact (signingMethod j) accessClaims accessSig,
                          tp_RefreshToken = Compact (signingMethod j) refreshClaims refreshSig,
                          tp_ExpiresIn = Seconds_int64 (accessTokenTTL j),
                          tp_TokenType = ''Bearer''\<rparr>))"

text \<open>
  \<open>jwt.ParseWithClaims\<close> of the library, with its default validator: the string is
  decoded, the key function is asked for the key, the signature is verified, then the
  claims are validated: an expiry that is present must lie after \<open>now\<close>, a not-before
  that is present must not lie after \<open>now\<close>. The token it returns has \<open>Valid\<close> set.
\<close>

record Token =
  t_Method :: SigningMethod
  t_Claims :: Claims
  t_Valid :: bool

definition Validate :: "time \<Rightarrow> Claims \<Rightarrow> err option" where
  "Validate now c =
     (if (case c_ExpiresAt c of None \<Rightarrow> False | Some e \<Rightarrow> \<not> now < e) then Some ErrTokenExpired
      else if (case c_NotBefore c of None \<Rightarrow> False | Some n \<Rightarrow> now < n) then Some ErrTokenNotValidYet
      else None)"

definition ParseWithClaims ::
  "sig_scheme \<Rightarrow> time \<Rightarrow> token_string \<Rightarrow> (SigningMethod \<Rightarrow> err + bytes) \<Rightarrow> err + Token" where
  "ParseWithClaims cr now tokenString keyFunc =
     (case tokenString of
        Unparsable s \<Rightarrow> Inl ErrTokenMalformed
      | Compact m c sg \<Rightarrow>
          (case keyFunc m of
             Inl e \<Rightarrow> Inl (ErrTokenUnverifiable e)
           | Inr key \<Rightarrow>
               if \<not> Verify cr m key (m, c) sg then Inl ErrTokenSignatureInvalid
               else (case Validate now c of
                       Some e \<Rightarrow> Inl e
                     | None \<Rightarrow> Inr \<lparr>t_Method = m, t_Claims = c, t_Valid = True\<rparr>)))"

definition VerifyAccessToken :: "sig_scheme \<Rightarrow> JWTService \<Rightarrow> time \<Rightarrow> token_string \<Rightarrow> err + Claims" where
  "VerifyAccessToken cr j now tokenString =
     (case ParseWithClaims cr now tokenString
             (\<lambda>m. if m \<noteq> signingMethod j then Inl (Errorf ''unexpected signing method'')
                  else Inr (accessSecret j)) of
        Inl e \<Rightarrow> Inl (Wrapf ''failed to parse access token'' e)
      | Inr token \<Rightarrow>
          if \<not> t_Valid token then Inl (Errorf ''invalid access token'')
          else (let claims = t_Claims token
                in if c_Type claims \<noteq> TokenTypeAccess then Inl (Errorf ''invalid token type'')
                   else Inr claims))"

definition VerifyRefreshToken :: "sig_scheme \<Rightarrow> JWTService \<Rightarrow> time \<Rightarrow> token_string \<Rightarrow> err + Claims" where
  "VerifyRefreshToken cr j now tokenString =
     (case ParseWithClaims cr now tokenString
             (\<lambda>m. if m \<noteq> signingMethod j then Inl (Errorf ''unexpected signing method'')
                  else Inr (refreshSecret j)) of
        Inl e \<Rightarrow> Inl (Wrapf ''failed to parse refresh token'' e)
      | Inr token \<Rightarrow>
          if \<not> t_Valid token then Inl (Errorf ''invalid refresh token'')
          else (let claims = t_Claims token
                in if c_Type claims \<noteq> TokenTypeRefresh then Inl (Errorf ''invalid token type'')
                   else Inr claims))"

section \<open>Refresh-token records and their repository\<close>

record RefreshToken =
  rt_ID :: uuid
  rt_UserID :: uuid
  rt_TokenID :: string
  rt_IssuedAt :: time
  rt_ExpiresAt :: time
  rt_Revoked :: bool
  rt_ReplacedBy :: "string option"
  rt_UserAgent :: "string option"
  rt_IP :: "string option"
  rt_CreatedAt :: time
  rt_UpdatedAt :: time

definition IsValid :: "RefreshToken \<Rightarrow> time \<Rightarrow> bool" where
  "IsValid rt now = (\<not> rt_Revoked rt \<and> now < rt_ExpiresAt rt)"

definition IsExpired :: "RefreshToken \<Rightarrow> time \<Rightarrow> bool" where
  "IsExpired rt now = (rt_ExpiresAt rt < now)"

definition Revoke :: "RefreshToken \<Rightarrow> time \<Rightarrow> RefreshToken" where
  "Revoke rt now = rt\<lparr>rt_Revoked := True, rt_UpdatedAt := now\<rparr>"

definition RevokeAndReplace :: "RefreshToken \<Rightarrow> string \<Rightarrow> time \<Rightarrow> RefreshToken" where
  "RevokeAndReplace rt replacementTokenID now =
     rt\<lparr>rt_Revoked := True, rt_ReplacedBy := Some replacementTokenID, rt_UpdatedAt := now\<rparr>"

definition BeforeCreate :: "RefreshToken \<Rightarrow> uuid \<Rightarrow> time \<Rightarrow> RefreshToken" where
  "BeforeCreate rt fresh now =
     rt\<lparr>rt_ID := (if rt_ID rt = uuid_Nil then fresh else rt_ID rt),
        rt_IssuedAt := (if rt_IssuedAt rt = zeroTime then now else rt_IssuedAt rt)\<rparr>"

text \<open>
  The table \<open>refresh_tokens\<close> is the list of its rows. The primary key \<open>id\<close> and the
  unique index on \<open>token_id\<close> make an insert of a duplicate fail; the timestamps
  \<open>created_at\<close> and \<open>updated_at\<close> are filled in when they are zero. Failures of the
  connection to the database are not modelled. A query returns a copy of the row it
  finds: changing the copy does not change the table.
\<close>

type_synonym refresh_tokens = "RefreshToken list"

definition Create :: "refresh_tokens \<Rightarrow> RefreshToken \<Rightarrow> uuid \<Rightarrow> time \<Rightarrow> err option \<times> refresh_tokens" where
  "Create db token fresh now =
     (let t = BeforeCreate token fresh now;
          row = t\<lparr>rt_CreatedAt := (if rt_CreatedAt t = zeroTime then now else rt_CreatedAt t),
                  rt_UpdatedAt := (if rt_UpdatedAt t = zeroTime then now else rt_UpdatedAt t)\<rparr>
      in if list_ex (\<lambda>r. rt_ID r = rt_ID row \<or> rt_TokenID r = rt_TokenID row) db
         then (Some ErrDuplicatedKey, db)
         else (None, db @ [row]))"

definition GetByTokenID :: "refresh_tokens \<Rightarrow> string \<Rightarrow> err + RefreshToken" where
  "GetByTokenID db tokenID =
     (case find (\<lambda>r. rt_TokenID r = tokenID) db of
        None \<Rightarrow> Inl ErrRecordNotFound
      | Some token \<Rightarrow> Inr token)"

definition RevokeByTokenID :: "refresh_tokens \<Rightarrow> string \<Rightarrow> time \<Rightarrow> err option \<times> refresh_tokens" where
  "RevokeByTokenID db tokenID now =
     (None, map (\<lambda>r. if rt_TokenID r = tokenID then r\<lparr>rt_Revoked := True, rt_UpdatedAt := now\<rparr> else r) db)"

definition RevokeAllUserTokens :: "refresh_tokens \<Rightarrow> uuid \<Rightarrow> time \<Rightarrow> err option \<times> refresh_tokens" where
  "RevokeAllUserTokens db userID now =
     (None, map (\<lambda>r. if rt_UserID r = userID then r\<lparr>rt_Revoked := True, rt_UpdatedAt := now\<rparr> else r) db)"

definition CleanExpiredTokens :: "refresh_tokens \<Rightarrow> time \<Rightarrow> err option \<times> refresh_tokens" where
  "CleanExpiredTokens db now = (None, filter (\<lambda>r. \<not> rt_ExpiresAt r < now) db)"

section \<open>The authentication service (AuthService)\<close>

text \<open>
  Each operation takes the table and returns its result with the table afterwards. The
  clock is read several times during one call; the model takes one reading \<open>now\<close> for
  all of them. The identifiers drawn by \<open>uuid.New()\<close> are arguments: \<open>accessTokenID\<close>
  and \<open>refreshTokenID\<close> for the tokens, \<open>rowID\<close> for the new row.
\<close>

definition new_record :: "uuid \<Rightarrow> Claims \<Rightarrow> time \<Rightarrow> time \<Rightarrow> string \<Rightarrow> string \<Rightarrow> RefreshToken" where
  "new_record userID cl issuedAt expiresAt userAgent ip =
     \<lparr>rt_ID = uuid_Nil, rt_UserID = userID, rt_TokenID = c_ID cl,
      rt_IssuedAt = issuedAt, rt_ExpiresAt = expiresAt,
      rt_Revoked = False, rt_ReplacedBy = None,
      rt_UserAgent = Some userAgent, rt_IP = Some ip,
      rt_CreatedAt = zeroTime, rt_UpdatedAt = zeroTime\<rparr>"

definition GenerateTokens ::
  "sig_scheme \<Rightarrow> JWTService \<Rightarrow> refresh_tokens \<Rightarrow> time \<Rightarrow> string \<Rightarrow> string \<Rightarrow> uuid
     \<Rightarrow> uuid \<Rightarrow> string \<Rightarrow> string list \<Rightarrow> string \<Rightarrow> string \<Rightarrow> (err + TokenPair) \<times> refresh_tokens" where
  "GenerateTokens cr j db now accessTokenID refreshTokenID rowID userID email roles userAgent ip =
     (case GenerateTokenPair cr j now accessTokenID refreshTokenID userID email roles of
        Inl e \<Rightarrow> (Inl (Wrapf ''failed to generate token pair'' e), db)
      | Inr tokenPair \<Rightarrow>
          (case VerifyRefreshToken cr j now (tp_RefreshToken tokenPair) of
             Inl e \<Rightarrow> (Inl (Wrapf ''failed to parse generated refresh token'' e), db)
           | Inr refreshClaims \<Rightarrow>
               (case (c_IssuedAt refreshClaims, c_ExpiresAt refreshClaims) of
                  (Some issuedAt, Some expiresAt) \<Rightarrow>
                    (case Create db (new_record userID refreshClaims issuedAt expiresAt userAgent ip)
                            rowID now of
                       (Some e, db') \<Rightarrow> (Inl (Wrapf ''failed to store refresh token'' e), db')
                     | (None, db') \<Rightarrow> (Inr tokenPair, db'))
                | _ \<Rightarrow> (Inl (Panic ''nil pointer dereference''), db))))"

text \<open>
  \<open>RefreshTokens\<close>. \<open>storedToken\<close> is the copy that \<open>GetByTokenID\<close> returned;
  \<open>RevokeAndReplace\<close> changes that copy, and the only call on the repository after it is
  \<open>Create\<close> for the new record.
\<close>

definition RefreshTokens ::
  "sig_scheme \<Rightarrow> JWTService \<Rightarrow> refresh_tokens \<Rightarrow> time \<Rightarrow> string \<Rightarrow> string \<Rightarrow> uuid
     \<Rightarrow> token_string \<Rightarrow> string \<Rightarrow> string \<Rightarrow> (err + TokenPair) \<times> refresh_tokens" where
  "RefreshTokens cr j db now accessTokenID refreshTokenID rowID refreshTokenString userAgent ip =
     (case VerifyRefreshToken cr j now refreshTokenString of
        Inl e \<Rightarrow> (Inl (Errorf ''invalid refresh token''), db)
      | Inr refreshClaims \<Rightarrow>
          (case GetByTokenID db (c_ID refreshClaims) of
             Inl e \<Rightarrow>
               (if e = ErrRecordNotFound then (Inl (Errorf ''refresh token not found''), db)
                else (Inl (Wrapf ''failed to get refresh token'' e), db))
           | Inr storedToken \<Rightarrow>
               if \<not> IsValid storedToken now
               then (Inl (Errorf ''refresh token is revoked or expired''), db)
               else
                 (case GenerateTokenPair cr j now accessTokenID refreshTokenID
                         (c_UserID refreshClaims) (c_Email refreshClaims) (c_Roles refreshClaims) of
                    Inl e \<Rightarrow> (Inl (Wrapf ''failed to generate new token pair'' e), db)
                  | Inr newTokenPair \<Rightarrow>
                      (case VerifyRefreshToken cr j now (tp_RefreshToken newTokenPair) of
                         Inl e \<Rightarrow> (Inl (Wrapf ''failed to parse new refresh token'' e), db)
                       | Inr newRefreshClaims \<Rightarrow>
                           (let storedToken' = RevokeAndReplace storedToken (c_ID newRefreshClaims) now
                            in case (c_IssuedAt newRefreshClaims, c_ExpiresAt newRefreshClaims) of
                                 (Some issuedAt, Some expiresAt) \<Rightarrow>
                                   (case Create db
                                           (new_record (c_UserID refreshClaims) newRefreshClaims
                                              issuedAt expiresAt userAgent ip)
                                           rowID now of
                                      (Some e, db') \<Rightarrow>
                                        (Inl (Wrapf ''failed to store new refresh token'' e), db')
                                    | (None, db') \<Rightarrow> (Inr newTokenPair, db'))
                               | _ \<Rightarrow> (Inl (Panic ''nil pointer dereference''), db))))))"

definition RevokeToken ::
  "sig_scheme \<Rightarrow> JWTService \<Rightarrow> refresh_tokens \<Rightarrow> time \<Rightarrow> token_string \<Rightarrow> err option \<times> refresh_tokens" where
  "RevokeToken cr j db now refreshTokenString =
     (case VerifyRefreshToken cr j now refreshTokenString of
        Inl e \<Rightarrow> (Some (Errorf ''invalid refresh token''), db)
      | Inr refreshClaims \<Rightarrow>
          (case RevokeByTokenID db (c_ID refreshClaims) now of
             (Some e, db') \<Rightarrow> (Some (Wrapf ''failed to revoke token'' e), db')
           | (None, db') \<Rightarrow> (None, db')))"

definition AuthService_RevokeAllUserTokens ::
  "refresh_tokens \<Rightarrow> time \<Rightarrow> uuid \<Rightarrow> err option \<times> refresh_tokens" where
  "AuthService_RevokeAllUserTokens db now userID =
     (case RevokeAllUserTokens db userID now of
        (Some e, db') \<Rightarrow> (Some (Wrapf ''failed to revoke user tokens'' e), db')
      | (None, db') \<Rightarrow> (None, db'))"

definition CleanupExpiredTokens :: "refresh_tokens \<Rightarrow> time \<Rightarrow> err option \<times> refresh_tokens" where
  "CleanupExpiredTokens db now = CleanExpiredTokens db now"

section \<open>Responses and the token handlers (pkg/response, auth_handlers.go)\<close>

record LogoutResponse =
  lr_Message :: string

record APIError =
  e_Code :: string
  e_Message :: string
  e_Details :: "string list option"

text \<open>
  What \<open>ShouldBindJSON\<close> returned is the input of a handler: the bound request, the
  validation errors of the validator (field and tag of each), or another error (a body
  that is not JSON). \<open>response.ValidationError\<close> asserts that the error is a list of
  validation errors and panics on any other.
\<close>

datatype bind_error = ValidationErrors "(string \<times> string) list" | OtherBindError string

record RefreshTokenRequest =
  rq_RefreshToken :: token_string

datatype 'u payload =
    AuthPayload 'u TokenPair
  | TokenPayload TokenPair
  | LogoutPayload LogoutResponse

record 'u APIResponse =
  r_Success :: bool
  r_Data :: "'u payload option"
  r_Error :: "APIError option"

datatype 'u http_result = Respond nat "'u APIResponse" | HandlerPanic string

definition successResponse :: "nat \<Rightarrow> 'u payload \<Rightarrow> 'u http_result" where
  "successResponse status data = Respond status \<lparr>r_Success = True, r_Data = Some data, r_Error = None\<rparr>"

definition errorResponse :: "nat \<Rightarrow> string \<Rightarrow> string \<Rightarrow> 'u http_result" where
  "errorResponse status code message =
     Respond status \<lparr>r_Success = False, r_Data = None,
                     r_Error = Some \<lparr>e_Code = code, e_Message = message, e_Details = None\<rparr>\<rparr>"

definition Success :: "'u payload \<Rightarrow> 'u http_result" where
  "Success data = successResponse 200 data"

definition Unauthorized :: "string \<Rightarrow> string \<Rightarrow> 'u http_result" where
  "Unauthorized code message = errorResponse 401 code message"

definition InternalError :: "string \<Rightarrow> string \<Rightarrow> 'u http_result" where
  "InternalError code message = errorResponse 500 code message"

definition ValidationError :: "bind_error \<Rightarrow> 'u http_result" where
  "ValidationError e =
     (case e of
        ValidationErrors fs \<Rightarrow>
          Respond 400
            \<lparr>r_Success = False, r_Data = None,
             r_Error = Some \<lparr>e_Code = ''VALIDATION_ERROR'', e_Message = ''Invalid input provided.'',
                             e_Details = Some (map (\<lambda>(field, tag).
                               ''Field '' @ [CHR 0x27] @ field @ [CHR 0x27] @ '' failed on the ''
                                 @ [CHR 0x27] @ tag @ [CHR 0x27] @ '' tag'') fs)\<rparr>\<rparr>
      | OtherBindError m \<Rightarrow> HandlerPanic ''interface conversion'')"

definition RefreshToken_handler ::
  "sig_scheme \<Rightarrow> JWTService \<Rightarrow> refresh_tokens \<Rightarrow> time \<Rightarrow> string \<Rightarrow> string \<Rightarrow> uuid
     \<Rightarrow> bind_error + RefreshTokenRequest \<Rightarrow> string \<Rightarrow> string \<Rightarrow> 'u http_result \<times> refresh_tokens" where
  "RefreshToken_handler cr j db now accessTokenID refreshTokenID rowID bound userAgent clientIP =
     (case bound of
        Inl e \<Rightarrow> (ValidationError e, db)
      | Inr req \<Rightarrow>
          (case RefreshTokens cr j db now accessTokenID refreshTokenID rowID
                  (rq_RefreshToken req) userAgent clientIP of
             (Inl e, db') \<Rightarrow>
               (Unauthorized ''TOKEN_REFRESH_FAILED'' ''Invalid or expired refresh token'', db')
           | (Inr newTokens, db') \<Rightarrow> (Success (TokenPayload newTokens), db')))"

definition Logout ::
  "sig_scheme \<Rightarrow> JWTService \<Rightarrow> refresh_tokens \<Rightarrow> time \<Rightarrow> bind_error + RefreshTokenRequest
     \<Rightarrow> 'u http_result \<times> refresh_tokens" where
  "Logout cr j db now bound =
     (case bound of
        Inl e \<Rightarrow> (ValidationError e, db)
      | Inr req \<Rightarrow>
          (case RevokeToken cr j db now (rq_RefreshToken req) of
             (e, db') \<Rightarrow> (Success (LogoutPayload \<lparr>lr_Message = ''Logged out successfully''\<rparr>), db')))"

section \<open>Runs of operations on the table\<close>

text \<open>
  The operations of the repository and of the service that touch the table of refresh
  tokens, each with the clock reading at which it runs, and the table after a run of
  them.
\<close>

datatype store_op =
    OpCreate RefreshToken uuid
  | OpGetByTokenID string
  | OpRevokeByTokenID string
  | OpRevokeAllUserTokens uuid
  | OpCleanExpiredTokens
  | OpGenerateTokens string string uuid uuid string "string list" string string
  | OpRefreshTokens string string uuid token_string string string
  | OpRevokeToken token_string

fun apply_op :: "sig_scheme \<Rightarrow> JWTService \<Rightarrow> time \<times> store_op \<Rightarrow> refresh_tokens \<Rightarrow> refresh_tokens" where
  "apply_op cr j (now, OpCreate token fresh) db = snd (Create db token fresh now)"
| "apply_op cr j (now, OpGetByTokenID tokenID) db = db"
| "apply_op cr j (now, OpRevokeByTokenID tokenID) db = snd (RevokeByTokenID db tokenID now)"
| "apply_op cr j (now, OpRevokeAllUserTokens userID) db = snd (AuthService_RevokeAllUserTokens db now userID)"
| "apply_op cr j (now, OpCleanExpiredTokens) db = snd (CleanupExpiredTokens db now)"
| "apply_op cr j (now, OpGenerateTokens aid rid rowID userID email roles ua ip) db =
     snd (GenerateTokens cr j db now aid rid rowID userID email roles ua ip)"
| "apply_op cr j (now, OpRefreshTokens aid rid rowID tok ua ip) db =
     snd (RefreshTokens cr j db now aid rid rowID tok ua ip)"
| "apply_op cr j (now, OpRevokeToken tok) db = snd (RevokeToken cr j db now tok)"

fun run :: "sig_scheme \<Rightarrow> JWTService \<Rightarrow> (time \<times> store_op) list \<Rightarrow> refresh_tokens \<Rightarrow> refresh_tokens" where
  "run cr j [] db = db"
| "run cr j (x # xs) db = run cr j xs (apply_op cr j x db)"

definition present :: "string \<Rightarrow> refresh_tokens \<Rightarrow> bool" where
  "present tokenID db = list_ex (\<lambda>r. rt_TokenID r = tokenID) db"

text \<open>Setting \<open>revoked\<close> on the rows that satisfy a condition, as the two revoking updates do.\<close>

definition revoke_where :: "(RefreshToken \<Rightarrow> bool) \<Rightarrow> time \<Rightarrow> refresh_tokens \<Rightarrow> refresh_tokens" where
  "revoke_where P now db = map (\<lambda>r. if P r then r\<lparr>rt_Revoked := True, rt_UpdatedAt := now\<rparr> else r) db"

text \<open>The unique index on \<open>token_id\<close>.\<close>

definition unique_token_ids :: "refresh_tokens \<Rightarrow> bool" where
  "unique_token_ids db = distinct (map rt_TokenID db)"

text \<open>
  A stand-in for the signature scheme, to run the model on concrete inputs: the HMAC
  methods accept a \<open>[]byte\<close> key and the tag is the key followed by the token id and
  type; the other methods refuse a \<open>[]byte\<close> key, as the RSA methods of the library do.
\<close>

definition is_hmac :: "SigningMethod \<Rightarrow> bool" where
  "is_hmac m = (m = HS256 \<or> m = HS384 \<or> m = HS512)"

definition toy_tag :: "bytes \<Rightarrow> SigningMethod \<times> Claims \<Rightarrow> signature" where
  "toy_tag key hc = key @ bytes_of_string (c_ID (snd hc)) @ bytes_of_string (c_Type (snd hc))"

definition toy_scheme :: sig_scheme where
  "toy_scheme =
     \<lparr>Sign = (\<lambda>m key hc. if is_hmac m then Inr (toy_tag key hc) else Inl ErrInvalidKeyType),
      Verify = (\<lambda>m key hc sg. is_hmac m \<and> sg = toy_tag key hc)\<rparr>"

definition demo_service :: JWTService where
  "demo_service = NewJWTService ''access-secret'' ''refresh-secret'' (900 * second) (2592000 * second) ''HS256''"

text \<open>A login and two refreshes, on the stand-in scheme: the claims, tokens and rows involved.\<close>

definition demo_claims :: "string \<Rightarrow> string \<Rightarrow> time \<Rightarrow> duration \<Rightarrow> Claims" where
  "demo_claims typ jti now ttl =
     \<lparr>c_UserID = ''u1'', c_Email = ''alice@example.com'', c_Roles = [''user''], c_Type = typ,
      c_ID = jti, c_Subject = ''u1'', c_IssuedAt = Some now, c_ExpiresAt = Some (now + ttl),
      c_NotBefore = Some now, c_Issuer = ''music-app-backend''\<rparr>"

definition demo_refresh_token :: "string \<Rightarrow> time \<Rightarrow> token_string" where
  "demo_refresh_token jti now =
     Compact HS256 (demo_claims ''refresh'' jti now (2592000 * second))
       (toy_tag (bytes_of_string ''refresh-secret'')
          (HS256, demo_claims ''refresh'' jti now (2592000 * second)))"

definition demo_access_token :: "string \<Rightarrow> time \<Rightarrow> token_string" where
  "demo_access_token jti now =
     Compact HS256 (demo_claims ''access'' jti now (900 * second))
       (toy_tag (bytes_of_string ''access-secret'')
          (HS256, demo_claims ''access'' jti now (900 * second)))"

definition demo_row :: "uuid \<Rightarrow> string \<Rightarrow> time \<Rightarrow> RefreshToken" where
  "demo_row rowID jti now =
     \<lparr>rt_ID = rowID, rt_UserID = ''u1'', rt_TokenID = jti, rt_IssuedAt = now,
      rt_ExpiresAt = now + 2592000 * second, rt_Revoked = False, rt_ReplacedBy = None,
      rt_UserAgent = Some ''ua'', rt_IP = Some ''ip'', rt_CreatedAt = now, rt_UpdatedAt = now\<rparr>"

definition refresh_of :: "err + TokenPair \<Rightarrow> token_string option" where
  "refresh_of res = (case res of Inl e \<Rightarrow> None | Inr pair \<Rightarrow> Some (tp_RefreshToken pair))"

text \<open>A revoked row, and a refresh, a login and a revoke-all to run on it.\<close>

definition revoked_row :: RefreshToken where
  "revoked_row = (demo_row ''row0'' ''r0'' 0)\<lparr>rt_Revoked := True\<rparr>"

definition demo_op1 :: "time \<times> store_op" where
  "demo_op1 = (10 * second, OpRefreshTokens ''a1'' ''r1'' ''row1'' (demo_refresh_token ''r0'' 0) ''ua'' ''ip'')"

definition demo_op2 :: "time \<times> store_op" where
  "demo_op2 = (20 * second,
     OpGenerateTokens ''a2'' ''r2'' ''row2'' ''u1'' ''alice@example.com'' [''user''] ''ua'' ''ip'')"

definition demo_op3 :: "time \<times> store_op" where
  "demo_op3 = (30 * second, OpRevokeAllUserTokens ''u1'')"

definition demo_ops :: "(time \<times> store_op) list" where
  "demo_ops = [demo_op1, demo_op2, demo_op3]"

section \<open>Properties of token extraction\<close>


lemma Fields_spaces: "\<forall>c\<in>set ws. isSpace c \<Longrightarrow> Fields (ws @ s) = Fields s"
  by (induction ws) simp_all

lemma Fields_all_space: "\<forall>c\<in>set ws. isSpace c \<Longrightarrow> Fields ws = []"
  using Fields_spaces [of ws "[]"] by simp

lemma Fields_Nil_D: "Fields h = [] \<Longrightarrow> \<forall>c\<in>set h. isSpace c"
proof (induction h)
  case Nil
  then show ?case by simp
next
  case (Cons c cs)
  then show ?case by (cases "isSpace c") simp_all
qed

lemma Fields_word:
  assumes "w \<noteq> []" "\<forall>c\<in>set w. \<not> isSpace c" "s = [] \<or> isSpace (hd s)"
  shows "Fields (w @ s) = w # Fields s"
proof -
  obtain c cs where w: "w = c # cs" using assms(1) by (cases w) auto
  have tw: "takeWhile (\<lambda>x. \<not> isSpace x) (w @ s) = w"
  proof (cases s)
    case Nil
    then show ?thesis using assms(2) by simp
  next
    case (Cons a as)
    then have "isSpace a" using assms(3) by simp
    then show ?thesis using assms(2) Cons by (simp add: takeWhile_append2)
  qed
  have dw: "dropWhile (\<lambda>x. \<not> isSpace x) (cs @ s) = s"
  proof (cases s)
    case Nil
    then show ?thesis using assms(2) w by simp
  next
    case (Cons a as)
    then have "isSpace a" using assms(3) by simp
    then show ?thesis using assms(2) Cons w by (simp add: dropWhile_append2)
  qed
  have "\<not> isSpace c" using assms(2) w by simp
  then have "Fields ((c # cs) @ s) = takeWhile (\<lambda>x. \<not> isSpace x) ((c # cs) @ s) # Fields (dropWhile (\<lambda>x. \<not> isSpace x) (cs @ s))"
    by simp
  then show ?thesis using w tw dw by simp
qed

lemma Fields_Cons_D:
  "Fields h = f # fs \<Longrightarrow>
   \<exists>ws rest. h = ws @ f @ rest \<and> (\<forall>c\<in>set ws. isSpace c) \<and> f \<noteq> [] \<and> (\<forall>c\<in>set f. \<not> isSpace c)
      \<and> (rest = [] \<or> isSpace (hd rest)) \<and> Fields rest = fs"
proof (induction h)
  case Nil
  then show ?case by simp
next
  case (Cons c cs)
  show ?case
  proof (cases "isSpace c")
    case True
    with Cons.prems have "Fields cs = f # fs" by simp
    from Cons.IH [OF this] obtain ws rest where *: "cs = ws @ f @ rest" "\<forall>c\<in>set ws. isSpace c" "f \<noteq> []"
      "\<forall>c\<in>set f. \<not> isSpace c" "rest = [] \<or> isSpace (hd rest)" "Fields rest = fs"
      by blast
    have "c # cs = (c # ws) @ f @ rest" using * by simp
    moreover have "\<forall>x\<in>set (c # ws). isSpace x" using * True by simp
    ultimately show ?thesis using * by blast
  next
    case False
    let ?P = "\<lambda>x. \<not> isSpace x"
    from Cons.prems False have f: "f = c # takeWhile ?P cs" and fs: "fs = Fields (dropWhile ?P cs)"
      by simp_all
    have 1: "c # cs = [] @ f @ dropWhile ?P cs" using f by simp
    have 2: "f \<noteq> []" using f by simp
    have 3: "\<forall>c\<in>set f. \<not> isSpace c" using f False by (auto dest: set_takeWhileD)
    have 4: "dropWhile ?P cs = [] \<or> isSpace (hd (dropWhile ?P cs))"
      using hd_dropWhile [of ?P cs] by blast
    have 5: "\<forall>c\<in>set []. isSpace c" by simp
    show ?thesis using 1 2 3 4 5 fs by blast
  qed
qed

lemma of_char_lower_char:
  "(of_char (lower_char c) :: nat) =
     (if 65 \<le> (of_char c :: nat) \<and> (of_char c :: nat) \<le> 90 then of_char c + 32 else of_char c)"
  by (simp add: lower_char_def)

lemma char_eq_nat: "c = d \<longleftrightarrow> (of_char c :: nat) = of_char d"
  by simp

lemma isSpace_of_char:
  "isSpace c \<longleftrightarrow> (of_char c :: nat) \<in> {9, 10, 11, 12, 13, 32}"
  unfolding isSpace_def
  by (simp add: char_eq_nat [of c "CHR 0x09"] char_eq_nat [of c "CHR 0x0A"] char_eq_nat [of c "CHR 0x0B"]
      char_eq_nat [of c "CHR 0x0C"] char_eq_nat [of c "CHR 0x0D"] char_eq_nat [of c "CHR 0x20"]
      del: of_char_eq_iff)

lemma lower_char_space: "isSpace (lower_char c) \<longleftrightarrow> isSpace c"
  unfolding isSpace_of_char of_char_lower_char by auto

lemma ToLower_no_space:
  "(\<forall>c\<in>set (ToLower s). \<not> isSpace c) \<longleftrightarrow> (\<forall>c\<in>set s. \<not> isSpace c)"
  by (simp add: ToLower_def lower_char_space)

lemma bearer_no_space: "\<forall>c\<in>set ''bearer''. \<not> isSpace c"
  by (simp add: isSpace_def)

lemma ToLower_bearer_D:
  assumes "ToLower s = ''bearer''"
  shows "s \<noteq> [] \<and> (\<forall>c\<in>set s. \<not> isSpace c)"
proof -
  have "\<forall>c\<in>set (ToLower s). \<not> isSpace c" using assms bearer_no_space by simp
  then have "\<forall>c\<in>set s. \<not> isSpace c" by (simp only: ToLower_no_space)
  moreover have "s \<noteq> []" using assms by (auto simp: ToLower_def)
  ultimately show ?thesis by simp
qed

lemma Fields_two:
  assumes "list_all isSpace ws0" "list_all isSpace ws1" "list_all isSpace ws2" "ws1 \<noteq> []"
    "f1 \<noteq> []" "list_all (\<lambda>c. \<not> isSpace c) f1" "f2 \<noteq> []" "list_all (\<lambda>c. \<not> isSpace c) f2"
  shows "Fields (ws0 @ f1 @ ws1 @ f2 @ ws2) = [f1, f2]"
proof -
  have s0: "\<forall>c\<in>set ws0. isSpace c" and s1: "\<forall>c\<in>set ws1. isSpace c" and s2: "\<forall>c\<in>set ws2. isSpace c"
    and n1: "\<forall>c\<in>set f1. \<not> isSpace c" and n2: "\<forall>c\<in>set f2. \<not> isSpace c"
    using assms by (simp_all add: list_all_iff)
  have a: "Fields (f2 @ ws2) = [f2]"
  proof -
    have "ws2 = [] \<or> isSpace (hd ws2)" using s2 by (cases ws2) simp_all
    then have "Fields (f2 @ ws2) = f2 # Fields ws2" using assms(7) n2 by (rule Fields_word [rotated 2])
    then show ?thesis using Fields_all_space [OF s2] by simp
  qed
  have b: "Fields (ws1 @ f2 @ ws2) = [f2]" using Fields_spaces [OF s1] a by simp
  have "isSpace (hd (ws1 @ f2 @ ws2))" using assms(4) s1 by (cases ws1) simp_all
  then have "Fields (f1 @ ws1 @ f2 @ ws2) = f1 # Fields (ws1 @ f2 @ ws2)"
    using Fields_word [OF assms(5) n1, of "ws1 @ f2 @ ws2"] by simp
  then show ?thesis using Fields_spaces [OF s0] b by simp
qed

lemma bearer_form_iff:
  "bearer_form h tok \<longleftrightarrow>
     length (Fields h) = 2 \<and> ToLower (Fields h ! 0) = ''bearer'' \<and> Fields h ! 1 = tok"
proof
  assume "bearer_form h tok"
  then obtain ws0 scheme ws1 ws2 where h: "h = ws0 @ scheme @ ws1 @ tok @ ws2"
    and sp: "list_all isSpace ws0" "list_all isSpace ws1" "list_all isSpace ws2" "ws1 \<noteq> []"
    and lo: "ToLower scheme = ''bearer''" and tk: "tok \<noteq> []" "list_all (\<lambda>c. \<not> isSpace c) tok"
    unfolding bearer_form_def by blast
  from ToLower_bearer_D [OF lo] have "scheme \<noteq> []" "list_all (\<lambda>c. \<not> isSpace c) scheme"
    by (simp_all add: list_all_iff)
  then have "Fields h = [scheme, tok]" unfolding h using sp tk by (intro Fields_two)
  then show "length (Fields h) = 2 \<and> ToLower (Fields h ! 0) = ''bearer'' \<and> Fields h ! 1 = tok"
    using lo by simp
next
  assume a: "length (Fields h) = 2 \<and> ToLower (Fields h ! 0) = ''bearer'' \<and> Fields h ! 1 = tok"
  then obtain f1 where F: "Fields h = [f1, tok]"
    by (cases "Fields h"; cases "tl (Fields h)") auto
  with a have lo: "ToLower f1 = ''bearer''" by simp
  from Fields_Cons_D [OF F] obtain ws0 rest where 1: "h = ws0 @ f1 @ rest" "\<forall>c\<in>set ws0. isSpace c"
    "Fields rest = [tok]" by blast
  from Fields_Cons_D [OF 1(3)] obtain ws1 rest2 where 2: "rest = ws1 @ tok @ rest2"
    "\<forall>c\<in>set ws1. isSpace c" "tok \<noteq> []" "\<forall>c\<in>set tok. \<not> isSpace c" "Fields rest2 = []" by blast
  have 3: "\<forall>c\<in>set rest2. isSpace c" using Fields_Nil_D [OF 2(5)] .
  have "ws1 \<noteq> []"
  proof
    assume e: "ws1 = []"
    have "f1 \<noteq> []" "\<forall>c\<in>set f1. \<not> isSpace c" using ToLower_bearer_D [OF lo] by simp_all
    then have n: "(f1 @ tok) \<noteq> []" "\<forall>c\<in>set (f1 @ tok). \<not> isSpace c" using 2(4) by auto
    have "rest2 = [] \<or> isSpace (hd rest2)" using 3 by (cases rest2) simp_all
    from Fields_word [OF n this] have "Fields ((f1 @ tok) @ rest2) = [f1 @ tok]"
      using 2(5) by simp
    then have "Fields h = [f1 @ tok]" using 1(1) 2(1) e Fields_spaces [OF 1(2), of "f1 @ tok @ rest2"]
      by simp
    with F show False by simp
  qed
  then show "bearer_form h tok" unfolding bearer_form_def
    using 1(1,2) 2(1,2,3,4) 3 lo
    by (intro exI [of _ ws0] exI [of _ f1] exI [of _ ws1] exI [of _ rest2]) (simp add: list_all_iff)
qed

text \<open>
  Claim C7, as the code has it. For an ASCII header: a header of the shape
  \<open>Bearer <token>\<close> (scheme in any letter case, fields separated and surrounded by white
  space) yields the token; a header that has not that shape is returned whole exactly
  when it contains no space character (U+0020) and exactly two dots, and yields the empty
  string otherwise. The test on the bare header looks for the space character only, not
  for other white space.
\<close>

theorem ExtractTokenFromHeader_spec:
  assumes "ascii h"
  shows "(bearer_form h tok \<longrightarrow> ExtractTokenFromHeader h = tok) \<and>
         ((\<nexists>t. bearer_form h t) \<longrightarrow>
            ExtractTokenFromHeader h =
              (if CHR '' '' \<notin> set h \<and> count_list h (CHR ''.'') = 2 then h else []))"
  by (simp add: bearer_form_iff ExtractTokenFromHeader_def ContainsChar_def CountChar_def Let_def)

text \<open>Claim C7: the theorem at the headers \<open>Bearer x.y.z\<close> and \<open>a.b.c\<close>.\<close>

theorem ExtractTokenFromHeader_spec_witness:
  "ascii ''Bearer x.y.z'' \<and> bearer_form ''Bearer x.y.z'' ''x.y.z'' \<and>
   ExtractTokenFromHeader ''Bearer x.y.z'' = ''x.y.z'' \<and>
   ascii ''a.b.c'' \<and> (\<nexists>t. bearer_form ''a.b.c'' t) \<and> ExtractTokenFromHeader ''a.b.c'' = ''a.b.c''"
proof -
  have a1: "ascii ''Bearer x.y.z''" and a2: "ascii ''a.b.c''" by (simp_all add: ascii_def)
  have b1: "bearer_form ''Bearer x.y.z'' ''x.y.z''"
    unfolding bearer_form_iff by code_simp
  have b2: "\<nexists>t. bearer_form ''a.b.c'' t"
    by (simp add: bearer_form_iff isSpace_def)
  show ?thesis
    using a1 a2 b1 b2 ExtractTokenFromHeader_spec [OF a1, of "''x.y.z''"]
      ExtractTokenFromHeader_spec [OF a2] by simp
qed

text \<open>
  Claim C7 as stated fails: a bare header with two dots and an embedded tab, which is
  white space, is returned as the token.
\<close>

theorem ExtractTokenFromHeader_tab_counterexample:
  "ExtractTokenFromHeader [CHR ''a'', CHR ''.'', CHR 0x09, CHR ''b'', CHR ''.'', CHR ''c'']
     = [CHR ''a'', CHR ''.'', CHR 0x09, CHR ''b'', CHR ''.'', CHR ''c'']
   \<and> isSpace (CHR 0x09)
   \<and> CHR 0x09 \<in> set [CHR ''a'', CHR ''.'', CHR 0x09, CHR ''b'', CHR ''.'', CHR ''c'']
   \<and> ascii [CHR ''a'', CHR ''.'', CHR 0x09, CHR ''b'', CHR ''.'', CHR ''c'']"
  by (simp add: ExtractTokenFromHeader_def isSpace_def ToLower_def lower_char_def
      ContainsChar_def CountChar_def ascii_def)

section \<open>Properties of the signed tokens\<close>


lemma GenerateTokenPair_Inr_D:
  assumes "GenerateTokenPair cr j now aid rid uid email roles = Inr pair"
  shows "\<exists>sa sr.
           tp_AccessToken pair = Compact (signingMethod j)
             \<lparr>c_UserID = uid, c_Email = email, c_Roles = roles, c_Type = TokenTypeAccess,
              c_ID = aid, c_Subject = uid, c_IssuedAt = NewNumericDate now,
              c_ExpiresAt = NewNumericDate (now + accessTokenTTL j),
              c_NotBefore = NewNumericDate now, c_Issuer = ''music-app-backend''\<rparr> sa \<and>
           tp_RefreshToken pair = Compact (signingMethod j)
             \<lparr>c_UserID = uid, c_Email = email, c_Roles = roles, c_Type = TokenTypeRefresh,
              c_ID = rid, c_Subject = uid, c_IssuedAt = NewNumericDate now,
              c_ExpiresAt = NewNumericDate (now + refreshTokenTTL j),
              c_NotBefore = NewNumericDate now, c_Issuer = ''music-app-backend''\<rparr> sr"
  using assms
  by (auto simp: GenerateTokenPair_def Let_def split: sum.splits)

lemma VerifyAccessToken_Inr_D:
  assumes "VerifyAccessToken cr j now t = Inr c"
  shows "\<exists>sg. t = Compact (signingMethod j) c sg \<and> c_Type c = TokenTypeAccess \<and>
           Verify cr (signingMethod j) (accessSecret j) (signingMethod j, c) sg \<and> Validate now c = None"
  using assms
  by (cases t) (auto simp: VerifyAccessToken_def ParseWithClaims_def Let_def
      split: sum.splits if_splits option.splits)

lemma VerifyRefreshToken_Inr_D:
  assumes "VerifyRefreshToken cr j now t = Inr c"
  shows "\<exists>sg. t = Compact (signingMethod j) c sg \<and> c_Type c = TokenTypeRefresh \<and>
           Verify cr (signingMethod j) (refreshSecret j) (signingMethod j, c) sg \<and> Validate now c = None"
  using assms
  by (cases t) (auto simp: VerifyRefreshToken_def ParseWithClaims_def Let_def
      split: sum.splits if_splits option.splits)

lemma token_types_differ: "TokenTypeAccess \<noteq> TokenTypeRefresh"
  by (simp add: TokenTypeAccess_def TokenTypeRefresh_def)

text \<open>
  Claim C5. For every pair that \<open>GenerateTokenPair\<close> returns, at any later clock reading
  \<open>VerifyAccessToken\<close> on the refresh token and \<open>VerifyRefreshToken\<close> on the access
  token return an error; and a token that a verifier accepts carries that verifier's type
  and a signature that verifies under that verifier's secret and the configured method.
  This holds for every signature scheme.
\<close>

theorem token_type_isolation:
  "(GenerateTokenPair cr j now aid rid uid email roles = Inr pair \<longrightarrow>
      isl (VerifyAccessToken cr j now' (tp_RefreshToken pair)) \<and>
      isl (VerifyRefreshToken cr j now' (tp_AccessToken pair))) \<and>
   (VerifyAccessToken cr j now' t = Inr c \<longrightarrow>
      c_Type c = TokenTypeAccess \<and>
      (\<exists>sg. t = Compact (signingMethod j) c sg \<and>
            Verify cr (signingMethod j) (accessSecret j) (signingMethod j, c) sg)) \<and>
   (VerifyRefreshToken cr j now' t = Inr c \<longrightarrow>
      c_Type c = TokenTypeRefresh \<and>
      (\<exists>sg. t = Compact (signingMethod j) c sg \<and>
            Verify cr (signingMethod j) (refreshSecret j) (signingMethod j, c) sg))"
proof (intro conjI impI)
  assume g: "GenerateTokenPair cr j now aid rid uid email roles = Inr pair"
  from GenerateTokenPair_Inr_D [OF g] obtain sa sr ca cf where
    a: "tp_AccessToken pair = Compact (signingMethod j) ca sa" "c_Type ca = TokenTypeAccess" and
    r: "tp_RefreshToken pair = Compact (signingMethod j) cf sr" "c_Type cf = TokenTypeRefresh"
    by fastforce
  show "isl (VerifyAccessToken cr j now' (tp_RefreshToken pair))"
  proof (cases "VerifyAccessToken cr j now' (tp_RefreshToken pair)")
    case (Inr c)
    from VerifyAccessToken_Inr_D [OF Inr] r token_types_differ show ?thesis by auto
  qed simp
  show "isl (VerifyRefreshToken cr j now' (tp_AccessToken pair))"
  proof (cases "VerifyRefreshToken cr j now' (tp_AccessToken pair)")
    case (Inr c)
    from VerifyRefreshToken_Inr_D [OF Inr] a token_types_differ show ?thesis by auto
  qed simp
qed (use VerifyAccessToken_Inr_D VerifyRefreshToken_Inr_D in blast)+

section \<open>Properties of refresh and of the table\<close>


lemma Create_cases:
  "Create db token fresh now = (res, db') \<Longrightarrow>
     (res \<noteq> None \<and> db' = db) \<or>
     (res = None \<and> (\<exists>row. db' = db @ [row] \<and> rt_TokenID row = rt_TokenID token \<and>
         rt_Revoked row = rt_Revoked token \<and> \<not> present (rt_TokenID row) db))"
  by (auto simp: Create_def Let_def BeforeCreate_def present_def list_ex_iff split: if_splits)

lemma RefreshTokens_Inr_D:
  assumes "RefreshTokens cr j db now aid rid rowid tok ua ip = (Inr pair, db')"
  shows "\<exists>c0 stored cn row.
           VerifyRefreshToken cr j now tok = Inr c0 \<and>
           GetByTokenID db (c_ID c0) = Inr stored \<and> IsValid stored now \<and>
           GenerateTokenPair cr j now aid rid (c_UserID c0) (c_Email c0) (c_Roles c0) = Inr pair \<and>
           VerifyRefreshToken cr j now (tp_RefreshToken pair) = Inr cn \<and>
           db' = db @ [row] \<and> rt_TokenID row = c_ID cn \<and> \<not> rt_Revoked row \<and>
           \<not> present (c_ID cn) db"
proof -
  from assms obtain c0 where c0: "VerifyRefreshToken cr j now tok = Inr c0"
    by (cases "VerifyRefreshToken cr j now tok") (auto simp: RefreshTokens_def)
  from assms c0 obtain stored where st: "GetByTokenID db (c_ID c0) = Inr stored"
    by (cases "GetByTokenID db (c_ID c0)") (auto simp: RefreshTokens_def split: if_splits)
  from assms c0 st have v: "IsValid stored now"
    by (auto simp: RefreshTokens_def split: if_splits)
  from assms c0 st v obtain p where
    g: "GenerateTokenPair cr j now aid rid (c_UserID c0) (c_Email c0) (c_Roles c0) = Inr p"
    by (cases "GenerateTokenPair cr j now aid rid (c_UserID c0) (c_Email c0) (c_Roles c0)")
       (auto simp: RefreshTokens_def)
  from assms c0 st v g obtain cn where cn: "VerifyRefreshToken cr j now (tp_RefreshToken p) = Inr cn"
    by (cases "VerifyRefreshToken cr j now (tp_RefreshToken p)") (auto simp: RefreshTokens_def)
  from assms c0 st v g cn obtain ia ea where d: "c_IssuedAt cn = Some ia" "c_ExpiresAt cn = Some ea"
    by (cases "c_IssuedAt cn"; cases "c_ExpiresAt cn") (auto simp: RefreshTokens_def Let_def)
  let ?new = "new_record (c_UserID c0) cn ia ea ua ip"
  from assms c0 st v g cn d have cr: "Create db ?new rowid now = (None, db')" and pp: "p = pair"
    by (auto simp: RefreshTokens_def Let_def split: prod.splits option.splits)
  from Create_cases [OF cr] obtain row where "db' = db @ [row]" "rt_TokenID row = rt_TokenID ?new"
    "rt_Revoked row = rt_Revoked ?new" "\<not> present (rt_TokenID row) db" by auto
  then have "db' = db @ [row] \<and> rt_TokenID row = c_ID cn \<and> \<not> rt_Revoked row \<and> \<not> present (c_ID cn) db"
    by (simp add: new_record_def)
  with c0 st v g cn pp show ?thesis by blast
qed

text \<open>
  Claim C10. When \<open>RefreshTokens\<close> succeeds, the user id, the email and the roles of both
  new tokens are those of the claims of the presented refresh token, and the subject of
  both is that user id. \<open>RefreshTokens\<close> has the table of refresh tokens and the
  presented token as its only sources: no user record is among its arguments.
\<close>

theorem refresh_copies_claims:
  assumes "RefreshTokens cr j db now aid rid rowid tok ua ip = (Inr pair, db')"
  shows "\<exists>c0 ca cf.
           claims_of tok = Some c0 \<and>
           claims_of (tp_AccessToken pair) = Some ca \<and>
           claims_of (tp_RefreshToken pair) = Some cf \<and>
           c_UserID ca = c_UserID c0 \<and> c_Subject ca = c_UserID c0 \<and>
           c_Email ca = c_Email c0 \<and> c_Roles ca = c_Roles c0 \<and>
           c_UserID cf = c_UserID c0 \<and> c_Subject cf = c_UserID c0 \<and>
           c_Email cf = c_Email c0 \<and> c_Roles cf = c_Roles c0"
proof -
  from RefreshTokens_Inr_D [OF assms] obtain c0 where
    c0: "VerifyRefreshToken cr j now tok = Inr c0" and
    g: "GenerateTokenPair cr j now aid rid (c_UserID c0) (c_Email c0) (c_Roles c0) = Inr pair"
    by blast
  from VerifyRefreshToken_Inr_D [OF c0] have "claims_of tok = Some c0" by auto
  moreover from GenerateTokenPair_Inr_D [OF g] obtain ca cf sa sr where
    "tp_AccessToken pair = Compact (signingMethod j) ca sa"
    "tp_RefreshToken pair = Compact (signingMethod j) cf sr"
    "c_UserID ca = c_UserID c0" "c_Subject ca = c_UserID c0"
    "c_Email ca = c_Email c0" "c_Roles ca = c_Roles c0"
    "c_UserID cf = c_UserID c0" "c_Subject cf = c_UserID c0"
    "c_Email cf = c_Email c0" "c_Roles cf = c_Roles c0"
    by fastforce
  ultimately show ?thesis by simp
qed

lemma GenerateTokens_db:
  "GenerateTokens cr j db now aid rid rowid uid email roles ua ip = (res, db') \<Longrightarrow>
     db' = db \<or> (\<exists>row. db' = db @ [row] \<and> \<not> present (rt_TokenID row) db)"
  by (auto simp: GenerateTokens_def split: sum.splits option.splits prod.splits dest!: Create_cases)

lemma RefreshTokens_db:
  "RefreshTokens cr j db now aid rid rowid tok ua ip = (res, db') \<Longrightarrow>
     db' = db \<or> (\<exists>row. db' = db @ [row] \<and> \<not> present (rt_TokenID row) db)"
  by (auto simp: RefreshTokens_def Let_def split: sum.splits option.splits prod.splits if_splits
      dest!: Create_cases)

lemma RevokeToken_db:
  "snd (RevokeToken cr j db now tok) = db \<or>
   (\<exists>k. snd (RevokeToken cr j db now tok) = snd (RevokeByTokenID db k now))"
  by (auto simp: RevokeToken_def RevokeByTokenID_def split: sum.splits)

lemma apply_op_shape:
  "apply_op cr j x db = db \<or>
   (\<exists>row. apply_op cr j x db = db @ [row] \<and> \<not> present (rt_TokenID row) db) \<or>
   (\<exists>P now. apply_op cr j x db = revoke_where P now db) \<or>
   (\<exists>P. apply_op cr j x db = filter P db)"
proof (cases x)
  case (Pair now op)
  show ?thesis
  proof (cases op)
    case (OpCreate token fresh)
    obtain res db' where c: "Create db token fresh now = (res, db')" by (cases "Create db token fresh now")
    from Create_cases [OF c] show ?thesis using Pair OpCreate c by auto
  next
    case (OpGetByTokenID k)
    then show ?thesis using Pair by simp
  next
    case (OpRevokeByTokenID k)
    have "apply_op cr j x db = revoke_where (\<lambda>r. rt_TokenID r = k) now db"
      using Pair OpRevokeByTokenID by (simp add: RevokeByTokenID_def revoke_where_def)
    then show ?thesis by blast
  next
    case (OpRevokeAllUserTokens u)
    have "apply_op cr j x db = revoke_where (\<lambda>r. rt_UserID r = u) now db"
      using Pair OpRevokeAllUserTokens
      by (simp add: AuthService_RevokeAllUserTokens_def RevokeAllUserTokens_def revoke_where_def)
    then show ?thesis by blast
  next
    case OpCleanExpiredTokens
    have "apply_op cr j x db = filter (\<lambda>r. \<not> rt_ExpiresAt r < now) db"
      using Pair OpCleanExpiredTokens by (simp add: CleanupExpiredTokens_def CleanExpiredTokens_def)
    then show ?thesis by blast
  next
    case (OpGenerateTokens aid rid rowid uid email roles ua ip)
    obtain res db' where c: "GenerateTokens cr j db now aid rid rowid uid email roles ua ip = (res, db')"
      by (cases "GenerateTokens cr j db now aid rid rowid uid email roles ua ip")
    from GenerateTokens_db [OF c] show ?thesis using Pair OpGenerateTokens c by auto
  next
    case (OpRefreshTokens aid rid rowid tok ua ip)
    obtain res db' where c: "RefreshTokens cr j db now aid rid rowid tok ua ip = (res, db')"
      by (cases "RefreshTokens cr j db now aid rid rowid tok ua ip")
    from RefreshTokens_db [OF c] show ?thesis using Pair OpRefreshTokens c by auto
  next
    case (OpRevokeToken tok)
    from RevokeToken_db [of cr j db now tok] show ?thesis
    proof
      assume "snd (RevokeToken cr j db now tok) = db"
      then show ?thesis using Pair OpRevokeToken by simp
    next
      assume "\<exists>k. snd (RevokeToken cr j db now tok) = snd (RevokeByTokenID db k now)"
      then obtain k where "snd (RevokeToken cr j db now tok) = snd (RevokeByTokenID db k now)" ..
      then have "apply_op cr j x db = revoke_where (\<lambda>r. rt_TokenID r = k) now db"
        using Pair OpRevokeToken by (simp add: RevokeByTokenID_def revoke_where_def)
      then show ?thesis by blast
    qed
  qed
qed

lemma map_TokenID_revoke_where: "map rt_TokenID (revoke_where P now db) = map rt_TokenID db"
  by (simp add: revoke_where_def comp_def if_distrib)

lemma unique_same:
  "unique_token_ids db \<Longrightarrow> r \<in> set db \<Longrightarrow> r' \<in> set db \<Longrightarrow> rt_TokenID r' = rt_TokenID r \<Longrightarrow> r' = r"
  unfolding unique_token_ids_def by (meson distinct_map inj_onD)

lemma apply_op_unique:
  assumes "unique_token_ids db"
  shows "unique_token_ids (apply_op cr j x db)"
proof -
  consider "apply_op cr j x db = db"
    | row where "apply_op cr j x db = db @ [row]" "\<not> present (rt_TokenID row) db"
    | P now where "apply_op cr j x db = revoke_where P now db"
    | P where "apply_op cr j x db = filter P db"
    using apply_op_shape [of cr j x db] by blast
  then show ?thesis
  proof cases
    case 1
    then show ?thesis using assms by simp
  next
    case 2
    have "rt_TokenID row \<notin> set (map rt_TokenID db)"
      using 2(2) by (auto simp: present_def list_ex_iff)
    then show ?thesis using 2(1) assms by (simp add: unique_token_ids_def)
  next
    case 3
    then show ?thesis using assms by (simp add: unique_token_ids_def map_TokenID_revoke_where)
  next
    case 4
    then show ?thesis using assms by (simp add: unique_token_ids_def distinct_map_filter)
  qed
qed

lemma apply_op_revoked:
  assumes u: "unique_token_ids db" and r: "r \<in> set db" "rt_Revoked r"
    and r': "r' \<in> set (apply_op cr j x db)" "rt_TokenID r' = rt_TokenID r"
  shows "rt_Revoked r'"
proof -
  consider "apply_op cr j x db = db"
    | row where "apply_op cr j x db = db @ [row]" "\<not> present (rt_TokenID row) db"
    | P now where "apply_op cr j x db = revoke_where P now db"
    | P where "apply_op cr j x db = filter P db"
    using apply_op_shape [of cr j x db] by blast
  then show ?thesis
  proof cases
    case 1
    then show ?thesis using unique_same [OF u r(1)] r r' by auto
  next
    case 2
    have "r' \<noteq> row" using 2(2) r(1) r'(2) by (auto simp: present_def list_ex_iff)
    then have "r' \<in> set db" using 2(1) r'(1) by simp
    then show ?thesis using unique_same [OF u r(1)] r r' by auto
  next
    case 3
    then obtain r0 where r0: "r0 \<in> set db"
      "r' = (if P r0 then r0\<lparr>rt_Revoked := True, rt_UpdatedAt := now\<rparr> else r0)"
      using r'(1) by (auto simp: revoke_where_def)
    then have "rt_TokenID r0 = rt_TokenID r" using r'(2) by (auto split: if_splits)
    then have "r0 = r" using unique_same [OF u r(1) r0(1)] by simp
    then show ?thesis using r0(2) r(2) by simp
  next
    case 4
    then have "r' \<in> set db" using r'(1) by simp
    then show ?thesis using unique_same [OF u r(1)] r r' by auto
  qed
qed

text \<open>
  Claim C9. Take a table with unique token ids and a row \<open>r\<close> of it that is revoked, and run
  any operations of the repository and of the service (create, get, revoke by token id,
  revoke all of a user, purge, login, refresh, logout), each at its own time. As long as
  a row with the token id of \<open>r\<close> has been in the table after every step, the row with
  that token id in the final table is revoked.
\<close>

theorem revoked_is_monotone:
  assumes "unique_token_ids db" and "r \<in> set db" and "rt_Revoked r"
    and "\<forall>i \<le> length ops. present (rt_TokenID r) (run cr j (take i ops) db)"
    and "r' \<in> set (run cr j ops db)" and "rt_TokenID r' = rt_TokenID r"
  shows "rt_Revoked r'"
  using assms
proof (induction ops arbitrary: db r)
  case Nil
  then show ?case using unique_same [of db r r'] by auto
next
  case (Cons x xs)
  let ?db1 = "apply_op cr j x db"
  have u1: "unique_token_ids ?db1" using Cons.prems(1) by (rule apply_op_unique)
  have "present (rt_TokenID r) (run cr j (take 1 (x # xs)) db)"
    using Cons.prems(4) by (metis One_nat_def Suc_leI length_Cons zero_less_Suc)
  then obtain r1 where r1: "r1 \<in> set ?db1" "rt_TokenID r1 = rt_TokenID r"
    by (auto simp: present_def list_ex_iff)
  have rev1: "rt_Revoked r1" using apply_op_revoked [OF Cons.prems(1,2,3) r1] .
  have pres: "\<forall>i \<le> length xs. present (rt_TokenID r1) (run cr j (take i xs) ?db1)"
  proof (intro allI impI)
    fix i assume "i \<le> length xs"
    then have "Suc i \<le> length (x # xs)" by simp
    with Cons.prems(4) have "present (rt_TokenID r) (run cr j (take (Suc i) (x # xs)) db)" by blast
    then show "present (rt_TokenID r1) (run cr j (take i xs) ?db1)" using r1(2) by simp
  qed
  show ?case
    using Cons.IH [OF u1 r1(1) rev1 pres] Cons.prems(5,6) r1(2) by simp
qed

text \<open>
  Claim C8. For a request whose body was bound, \<open>Logout\<close> answers 200 with the message
  \<open>Logged out successfully\<close>, whatever the token, the table, the clock and the signature
  scheme are: the result of \<open>RevokeToken\<close> is not part of the response.
\<close>

theorem Logout_always_succeeds:
  "fst (Logout cr j db now (Inr req)) =
     Respond 200 \<lparr>r_Success = True,
                  r_Data = Some (LogoutPayload \<lparr>lr_Message = ''Logged out successfully''\<rparr>),
                  r_Error = None\<rparr>"
  by (simp add: Logout_def Success_def successResponse_def split: prod.splits)

section \<open>The login and two refreshes, evaluated\<close>


lemmas demo_defs = demo_service_def NewJWTService_def toy_scheme_def toy_tag_def is_hmac_def
  demo_claims_def demo_refresh_token_def demo_access_token_def demo_row_def refresh_of_def
  bytes_of_string_def second_def zeroTime_def uuid_Nil_def TokenTypeAccess_def TokenTypeRefresh_def
  NewNumericDate_def Seconds_int64_def

lemmas code_defs = GenerateTokenPair_def VerifyRefreshToken_def VerifyAccessToken_def
  ParseWithClaims_def Validate_def GenerateTokens_def RefreshTokens_def RevokeToken_def
  Create_def BeforeCreate_def GetByTokenID_def IsValid_def RevokeAndReplace_def new_record_def
  RevokeByTokenID_def

lemma demo_pair:
  "GenerateTokenPair toy_scheme demo_service 0 ''a0'' ''r0'' ''u1'' ''alice@example.com'' [''user'']
     = Inr \<lparr>tp_AccessToken = demo_access_token ''a0'' 0, tp_RefreshToken = demo_refresh_token ''r0'' 0,
            tp_ExpiresIn = 900, tp_TokenType = ''Bearer''\<rparr>"
  by (simp add: demo_defs code_defs)

lemma demo_login:
  "GenerateTokens toy_scheme demo_service [] 0 ''a0'' ''r0'' ''row0'' ''u1'' ''alice@example.com''
     [''user''] ''ua'' ''ip''
     = (Inr \<lparr>tp_AccessToken = demo_access_token ''a0'' 0, tp_RefreshToken = demo_refresh_token ''r0'' 0,
            tp_ExpiresIn = 900, tp_TokenType = ''Bearer''\<rparr>, [demo_row ''row0'' ''r0'' 0])"
  by (simp add: demo_defs code_defs)

lemma demo_refresh1:
  "RefreshTokens toy_scheme demo_service [demo_row ''row0'' ''r0'' 0] (10 * second) ''a1'' ''r1'' ''row1''
     (demo_refresh_token ''r0'' 0) ''ua'' ''ip''
     = (Inr \<lparr>tp_AccessToken = demo_access_token ''a1'' (10 * second),
             tp_RefreshToken = demo_refresh_token ''r1'' (10 * second),
             tp_ExpiresIn = 900, tp_TokenType = ''Bearer''\<rparr>,
        [demo_row ''row0'' ''r0'' 0, demo_row ''row1'' ''r1'' (10 * second)])"
  by (simp add: demo_defs code_defs)

lemma demo_refresh2:
  "RefreshTokens toy_scheme demo_service
     [demo_row ''row0'' ''r0'' 0, demo_row ''row1'' ''r1'' (10 * second)] (20 * second) ''a2'' ''r2'' ''row2''
     (demo_refresh_token ''r0'' 0) ''ua'' ''ip''
     = (Inr \<lparr>tp_AccessToken = demo_access_token ''a2'' (20 * second),
             tp_RefreshToken = demo_refresh_token ''r2'' (20 * second),
             tp_ExpiresIn = 900, tp_TokenType = ''Bearer''\<rparr>,
        [demo_row ''row0'' ''r0'' 0, demo_row ''row1'' ''r1'' (10 * second),
         demo_row ''row2'' ''r2'' (20 * second)])"
  by (simp add: demo_defs code_defs)

section \<open>The theorems at concrete inputs\<close>


text \<open>Claim C5: the theorem at the pair of the login above, one second later.\<close>

theorem token_type_isolation_witness:
  "isl (VerifyAccessToken toy_scheme demo_service second (demo_refresh_token ''r0'' 0)) \<and>
   isl (VerifyRefreshToken toy_scheme demo_service second (demo_access_token ''a0'' 0)) \<and>
   VerifyAccessToken toy_scheme demo_service second (demo_access_token ''a0'' 0)
     = Inr (demo_claims ''access'' ''a0'' 0 (900 * second)) \<and>
   c_Type (demo_claims ''access'' ''a0'' 0 (900 * second)) = TokenTypeAccess \<and>
   VerifyRefreshToken toy_scheme demo_service second (demo_refresh_token ''r0'' 0)
     = Inr (demo_claims ''refresh'' ''r0'' 0 (2592000 * second)) \<and>
   c_Type (demo_claims ''refresh'' ''r0'' 0 (2592000 * second)) = TokenTypeRefresh"
proof -
  have a: "VerifyAccessToken toy_scheme demo_service second (demo_access_token ''a0'' 0)
     = Inr (demo_claims ''access'' ''a0'' 0 (900 * second))"
    by (simp add: demo_defs code_defs)
  have r: "VerifyRefreshToken toy_scheme demo_service second (demo_refresh_token ''r0'' 0)
     = Inr (demo_claims ''refresh'' ''r0'' 0 (2592000 * second))"
    by (simp add: demo_defs code_defs)
  from token_type_isolation [of toy_scheme demo_service 0 "''a0''" "''r0''" "''u1''"
      "''alice@example.com''" "[''user'']" "\<lparr>tp_AccessToken = demo_access_token ''a0'' 0, tp_RefreshToken = demo_refresh_token ''r0'' 0,
            tp_ExpiresIn = 900, tp_TokenType = ''Bearer''\<rparr>" second "demo_access_token ''a0'' 0"
      "demo_claims ''access'' ''a0'' 0 (900 * second)"] demo_pair a
  have 1: "isl (VerifyAccessToken toy_scheme demo_service second (demo_refresh_token ''r0'' 0))"
    "isl (VerifyRefreshToken toy_scheme demo_service second (demo_access_token ''a0'' 0))"
    "c_Type (demo_claims ''access'' ''a0'' 0 (900 * second)) = TokenTypeAccess"
    by simp_all
  from token_type_isolation [of toy_scheme demo_service 0 "''a0''" "''r0''" "''u1''"
      "''alice@example.com''" "[''user'']" "\<lparr>tp_AccessToken = demo_access_token ''a0'' 0, tp_RefreshToken = demo_refresh_token ''r0'' 0,
            tp_ExpiresIn = 900, tp_TokenType = ''Bearer''\<rparr>" second "demo_refresh_token ''r0'' 0"
      "demo_claims ''refresh'' ''r0'' 0 (2592000 * second)"] r
  have 2: "c_Type (demo_claims ''refresh'' ''r0'' 0 (2592000 * second)) = TokenTypeRefresh"
    by simp
  show ?thesis using a r 1 2 by simp
qed

text \<open>Claim C10: the theorem at the first refresh above.\<close>

theorem refresh_copies_claims_witness:
  "fst (RefreshTokens toy_scheme demo_service [demo_row ''row0'' ''r0'' 0] (10 * second)
          ''a1'' ''r1'' ''row1'' (demo_refresh_token ''r0'' 0) ''ua'' ''ip'')
     = Inr \<lparr>tp_AccessToken = demo_access_token ''a1'' (10 * second),
             tp_RefreshToken = demo_refresh_token ''r1'' (10 * second),
             tp_ExpiresIn = 900, tp_TokenType = ''Bearer''\<rparr> \<and>
   (\<exists>c0 ca cf.
      claims_of (demo_refresh_token ''r0'' 0) = Some c0 \<and>
      claims_of (demo_access_token ''a1'' (10 * second)) = Some ca \<and>
      claims_of (demo_refresh_token ''r1'' (10 * second)) = Some cf \<and>
      c_UserID ca = c_UserID c0 \<and> c_Subject ca = c_UserID c0 \<and>
      c_Email ca = c_Email c0 \<and> c_Roles ca = c_Roles c0 \<and>
      c_UserID cf = c_UserID c0 \<and> c_Subject cf = c_UserID c0 \<and>
      c_Email cf = c_Email c0 \<and> c_Roles cf = c_Roles c0)"
  using refresh_copies_claims [OF demo_refresh1] demo_refresh1 by simp

text \<open>
  Claim C1 fails on the code. After the login and the refresh with its token \<open>r0\<close>, the
  table holds the row of \<open>r0\<close> unchanged, not revoked and with no replacement, and a
  second refresh that presents \<open>r0\<close> again succeeds.
\<close>

theorem refresh_leaves_presented_token_valid:
  "GenerateTokens toy_scheme demo_service [] 0 ''a0'' ''r0'' ''row0'' ''u1'' ''alice@example.com''
     [''user''] ''ua'' ''ip''
     = (Inr \<lparr>tp_AccessToken = demo_access_token ''a0'' 0, tp_RefreshToken = demo_refresh_token ''r0'' 0,
            tp_ExpiresIn = 900, tp_TokenType = ''Bearer''\<rparr>, [demo_row ''row0'' ''r0'' 0]) \<and>
   RefreshTokens toy_scheme demo_service [demo_row ''row0'' ''r0'' 0] (10 * second) ''a1'' ''r1'' ''row1''
     (demo_refresh_token ''r0'' 0) ''ua'' ''ip''
     = (Inr \<lparr>tp_AccessToken = demo_access_token ''a1'' (10 * second),
             tp_RefreshToken = demo_refresh_token ''r1'' (10 * second),
             tp_ExpiresIn = 900, tp_TokenType = ''Bearer''\<rparr>,
        [demo_row ''row0'' ''r0'' 0, demo_row ''row1'' ''r1'' (10 * second)]) \<and>
   GetByTokenID [demo_row ''row0'' ''r0'' 0, demo_row ''row1'' ''r1'' (10 * second)] ''r0''
     = Inr (demo_row ''row0'' ''r0'' 0) \<and>
   rt_Revoked (demo_row ''row0'' ''r0'' 0) = False \<and>
   rt_ReplacedBy (demo_row ''row0'' ''r0'' 0) = None \<and>
   refresh_of (fst (RefreshTokens toy_scheme demo_service
     [demo_row ''row0'' ''r0'' 0, demo_row ''row1'' ''r1'' (10 * second)] (20 * second) ''a2'' ''r2'' ''row2''
     (demo_refresh_token ''r0'' 0) ''ua'' ''ip''))
     = Some (demo_refresh_token ''r2'' (20 * second))"
proof -
  have "GetByTokenID [demo_row ''row0'' ''r0'' 0, demo_row ''row1'' ''r1'' (10 * second)] ''r0''
     = Inr (demo_row ''row0'' ''r0'' 0)"
    by (simp add: GetByTokenID_def demo_row_def)
  moreover have "rt_Revoked (demo_row ''row0'' ''r0'' 0) = False"
    "rt_ReplacedBy (demo_row ''row0'' ''r0'' 0) = None"
    by (simp_all add: demo_row_def)
  ultimately show ?thesis
    using demo_login demo_refresh1 demo_refresh2 by (simp add: refresh_of_def)
qed

lemma demo_run1:
  "apply_op toy_scheme demo_service demo_op1 [revoked_row] = [revoked_row]"
  by (simp add: demo_op1_def revoked_row_def demo_defs code_defs)

lemma demo_run2:
  "apply_op toy_scheme demo_service demo_op2 [revoked_row]
     = [revoked_row, demo_row ''row2'' ''r2'' (20 * second)]"
  by (simp add: demo_op2_def revoked_row_def demo_defs code_defs)

lemma demo_run3:
  "apply_op toy_scheme demo_service demo_op3 [revoked_row, demo_row ''row2'' ''r2'' (20 * second)]
     = [revoked_row\<lparr>rt_UpdatedAt := 30 * second\<rparr>,
        (demo_row ''row2'' ''r2'' (20 * second))\<lparr>rt_Revoked := True, rt_UpdatedAt := 30 * second\<rparr>]"
  by (simp add: demo_op3_def revoked_row_def demo_defs AuthService_RevokeAllUserTokens_def
      RevokeAllUserTokens_def)

text \<open>Claim C9: the theorem at a table with one revoked row and a run of three operations.\<close>

theorem revoked_is_monotone_witness:
  "unique_token_ids [revoked_row] \<and> revoked_row \<in> set [revoked_row] \<and> rt_Revoked revoked_row \<and>
   present (rt_TokenID revoked_row) (run toy_scheme demo_service (take 0 demo_ops) [revoked_row]) \<and>
   present (rt_TokenID revoked_row) (run toy_scheme demo_service (take 1 demo_ops) [revoked_row]) \<and>
   present (rt_TokenID revoked_row) (run toy_scheme demo_service (take 2 demo_ops) [revoked_row]) \<and>
   present (rt_TokenID revoked_row) (run toy_scheme demo_service (take 3 demo_ops) [revoked_row]) \<and>
   length demo_ops = 3 \<and>
   revoked_row\<lparr>rt_UpdatedAt := 30 * second\<rparr> \<in> set (run toy_scheme demo_service demo_ops [revoked_row]) \<and>
   rt_TokenID (revoked_row\<lparr>rt_UpdatedAt := 30 * second\<rparr>) = rt_TokenID revoked_row \<and>
   rt_Revoked (revoked_row\<lparr>rt_UpdatedAt := 30 * second\<rparr>)"
proof -
  have r1: "run toy_scheme demo_service (take 1 demo_ops) [revoked_row] = [revoked_row]"
    by (simp add: demo_ops_def demo_run1)
  have r2: "run toy_scheme demo_service (take 2 demo_ops) [revoked_row]
     = [revoked_row, demo_row ''row2'' ''r2'' (20 * second)]"
    by (simp add: demo_ops_def demo_run1 demo_run2 numeral_2_eq_2)
  have r3: "run toy_scheme demo_service demo_ops [revoked_row]
     = [revoked_row\<lparr>rt_UpdatedAt := 30 * second\<rparr>,
        (demo_row ''row2'' ''r2'' (20 * second))\<lparr>rt_Revoked := True, rt_UpdatedAt := 30 * second\<rparr>]"
    by (simp add: demo_ops_def demo_run1 demo_run2 demo_run3)
  have len: "length demo_ops = 3" by (simp add: demo_ops_def)
  have u: "unique_token_ids [revoked_row]" by (simp add: unique_token_ids_def)
  have m: "revoked_row \<in> set [revoked_row]" by simp
  have v: "rt_Revoked revoked_row" by (simp add: revoked_row_def)
  have p: "\<forall>i \<le> length demo_ops.
      present (rt_TokenID revoked_row) (run toy_scheme demo_service (take i demo_ops) [revoked_row])"
  proof (intro allI impI)
    fix i assume "i \<le> length demo_ops"
    then consider "i = 0" | "i = 1" | "i = 2" | "i = 3" using len by linarith
    then show "present (rt_TokenID revoked_row) (run toy_scheme demo_service (take i demo_ops) [revoked_row])"
    proof cases
      case 1 then show ?thesis by (simp add: present_def)
    next
      case 2 then show ?thesis using r1 by (simp add: present_def)
    next
      case 3 then show ?thesis using r2 by (simp add: present_def)
    next
      case 4 then show ?thesis using r3 len by (simp add: present_def)
    qed
  qed
  have e: "revoked_row\<lparr>rt_UpdatedAt := 30 * second\<rparr> \<in> set (run toy_scheme demo_service demo_ops [revoked_row])"
    using r3 by simp
  have k: "rt_TokenID (revoked_row\<lparr>rt_UpdatedAt := 30 * second\<rparr>) = rt_TokenID revoked_row" by simp
  have p0: "present (rt_TokenID revoked_row) (run toy_scheme demo_service (take 0 demo_ops) [revoked_row])"
    and p1: "present (rt_TokenID revoked_row) (run toy_scheme demo_service (take 1 demo_ops) [revoked_row])"
    and p2: "present (rt_TokenID revoked_row) (run toy_scheme demo_service (take 2 demo_ops) [revoked_row])"
    and p3: "present (rt_TokenID revoked_row) (run toy_scheme demo_service (take 3 demo_ops) [revoked_row])"
  proof -
    have "i \<le> length demo_ops \<Longrightarrow>
      present (rt_TokenID revoked_row) (run toy_scheme demo_service (take i demo_ops) [revoked_row])" for i
      using p by blast
    from this [of 0] this [of 1] this [of 2] this [of 3] len
    show "present (rt_TokenID revoked_row) (run toy_scheme demo_service (take 0 demo_ops) [revoked_row])"
      "present (rt_TokenID revoked_row) (run toy_scheme demo_service (take 1 demo_ops) [revoked_row])"
      "present (rt_TokenID revoked_row) (run toy_scheme demo_service (take 2 demo_ops) [revoked_row])"
      "present (rt_TokenID revoked_row) (run toy_scheme demo_service (take 3 demo_ops) [revoked_row])"
      by simp_all
  qed
  from revoked_is_monotone [OF u m v p e k] u m v p0 p1 p2 p3 len e k show ?thesis by blast
qed

text \<open>Claim C8: the theorem at a token that does not parse.\<close>

theorem Logout_always_succeeds_witness:
  "fst (Logout toy_scheme demo_service [demo_row ''row0'' ''r0'' 0] second
          (Inr \<lparr>rq_RefreshToken = Unparsable ''garbage''\<rparr>))
     = Respond 200 \<lparr>r_Success = True,
                    r_Data = Some (LogoutPayload \<lparr>lr_Message = ''Logged out successfully''\<rparr>),
                    r_Error = None\<rparr>"
  by (rule Logout_always_succeeds)

end
